theory Spec2Isabelle
  imports Complex_Main
begin

section \<open>Entity model (src/index.ts)\<close>

text \<open>
  A TypeScript \<open>number\<close> that holds an amount is modelled as a \<open>real\<close>: sums, differences
  and comparisons are exact, the rounding of IEEE doubles is outside the model.  Counts,
  ranks and list positions are natural numbers.

  A JavaScript \<open>Date\<close> object is modelled by what the code observes of it: whether it is
  valid, its time value (\<open>valueOf\<close>, used by the relational operators) and the calendar
  year and month (\<open>getFullYear\<close>, \<open>getMonth\<close>, from 0) of the host's local time.  How the
  host derives the calendar fields from the time value is not part of the repository.
  The \<open>date\<close> field of a transaction is an ISO string in the source and is only ever read
  through \<open>new Date(t.date)\<close>; the model stores that Date object.  An unparsable string
  gives \<open>Invalid_Date\<close>, whose observations are all \<open>NaN\<close> (here \<open>None\<close>).
\<close>

datatype jsdate = Invalid_Date | Date_at (timeValue: int) (fullYear: int) (monthIndex: int)

fun getTime :: "jsdate \<Rightarrow> int option" where
  "getTime Invalid_Date = None"
| "getTime (Date_at ms y m) = Some ms"

fun getFullYear :: "jsdate \<Rightarrow> int option" where
  "getFullYear Invalid_Date = None"
| "getFullYear (Date_at ms y m) = Some y"

fun getMonth :: "jsdate \<Rightarrow> int option" where
  "getMonth Invalid_Date = None"
| "getMonth (Date_at ms y m) = Some m"

text \<open>
  \<open>a === b\<close>, \<open>a >= b\<close>, \<open>a <= b\<close>, \<open>a < b\<close> and \<open>a > b\<close> on numbers that may be
  \<open>NaN\<close>: every comparison with \<open>NaN\<close> is false.
\<close>

fun strict_eq :: "int option \<Rightarrow> int option \<Rightarrow> bool" where
  "strict_eq (Some a) (Some b) = (a = b)"
| "strict_eq _ _ = False"

fun js_ge :: "int option \<Rightarrow> int option \<Rightarrow> bool" where
  "js_ge (Some a) (Some b) = (a \<ge> b)"
| "js_ge _ _ = False"

fun js_le :: "int option \<Rightarrow> int option \<Rightarrow> bool" where
  "js_le (Some a) (Some b) = (a \<le> b)"
| "js_le _ _ = False"

fun js_lt :: "int option \<Rightarrow> int option \<Rightarrow> bool" where
  "js_lt (Some a) (Some b) = (a < b)"
| "js_lt _ _ = False"

fun js_gt :: "int option \<Rightarrow> int option \<Rightarrow> bool" where
  "js_gt (Some a) (Some b) = (a > b)"
| "js_gt _ _ = False"

datatype tx_status = Paid | Partial | Pending

datatype pay_method = Cash | Upi | Bank | Other

record Customer =
  c_id :: string
  c_name :: string
  businessName :: string
  mobile :: string
  email :: string
  address :: string
  businessType :: string
  cardImageUri :: "string option"
  c_createdAt :: string
  updatedAt :: string

record ProductItem =
  pi_name :: string
  quantity :: real
  unitPrice :: real
  total :: real

record Transaction =
  t_id :: string
  t_customerId :: string
  t_date :: jsdate
  products :: "ProductItem list"
  totalAmount :: real
  amountPaid :: real
  status :: tx_status
  t_notes :: "string option"
  t_createdAt :: string

record Payment =
  p_id :: string
  transactionId :: string
  p_customerId :: string
  amount :: real
  p_date :: string
  p_method :: pay_method
  p_notes :: "string option"

text \<open>
  \<open>Partial<Customer>\<close>: every field may be absent (\<open>None\<close>); a present field overrides
  the stored one when the object is spread over the customer.
\<close>

record CustomerUpdates =
  u_id :: "string option"
  u_name :: "string option"
  u_businessName :: "string option"
  u_mobile :: "string option"
  u_email :: "string option"
  u_address :: "string option"
  u_businessType :: "string option"
  u_cardImageUri :: "string option"
  u_createdAt :: "string option"
  u_updatedAt :: "string option"

section \<open>Ledger mutation rules (the \<open>storage\<close> object)\<close>

text \<open>
  The three collections of the key-value store, as the \<open>get\<close> operations return them.
  Every operation reads a collection whole and writes it back whole; the \<open>await\<close>s run in
  sequence, so an operation is a function from the store before to the store after.
  Failing reads and writes of the device storage are not modelled.  \<open>generateId()\<close> and
  \<open>new Date().toISOString()\<close> are inputs of the operations that call them.
\<close>

record store =
  customers :: "Customer list"
  transactions :: "Transaction list"
  payments :: "Payment list"

text \<open>\<open>Array.prototype.findIndex\<close>; \<open>None\<close> stands for \<open>-1\<close>.\<close>

fun findIndex :: "('a \<Rightarrow> bool) \<Rightarrow> 'a list \<Rightarrow> nat option" where
  "findIndex P [] = None"
| "findIndex P (x # xs) = (if P x then Some 0 else map_option Suc (findIndex P xs))"

definition applyUpdates :: "Customer \<Rightarrow> CustomerUpdates \<Rightarrow> string \<Rightarrow> Customer" where
  "applyUpdates c u nowIso =
     c\<lparr> c_id := (case u_id u of None \<Rightarrow> c_id c | Some v \<Rightarrow> v),
        c_name := (case u_name u of None \<Rightarrow> c_name c | Some v \<Rightarrow> v),
        businessName := (case u_businessName u of None \<Rightarrow> businessName c | Some v \<Rightarrow> v),
        mobile := (case u_mobile u of None \<Rightarrow> mobile c | Some v \<Rightarrow> v),
        email := (case u_email u of None \<Rightarrow> email c | Some v \<Rightarrow> v),
        address := (case u_address u of None \<Rightarrow> address c | Some v \<Rightarrow> v),
        businessType := (case u_businessType u of None \<Rightarrow> businessType c | Some v \<Rightarrow> v),
        cardImageUri := (case u_cardImageUri u of None \<Rightarrow> cardImageUri c | Some v \<Rightarrow> Some v),
        c_createdAt := (case u_createdAt u of None \<Rightarrow> c_createdAt c | Some v \<Rightarrow> v),
        updatedAt := nowIso \<rparr>"

definition updateCustomer ::
  "string \<Rightarrow> string \<Rightarrow> CustomerUpdates \<Rightarrow> store \<Rightarrow> Customer option \<times> store" where
  "updateCustomer nowIso ident updates s =
     (case findIndex (\<lambda>c. c_id c = ident) (customers s) of
        None \<Rightarrow> (None, s)
      | Some index \<Rightarrow>
          (let updated = applyUpdates (customers s ! index) updates nowIso
           in (Some updated, s\<lparr>customers := (customers s)[index := updated]\<rparr>)))"

definition deleteCustomer :: "string \<Rightarrow> store \<Rightarrow> store" where
  "deleteCustomer ident s =
     s\<lparr> customers := filter (\<lambda>c. c_id c \<noteq> ident) (customers s),
        transactions := filter (\<lambda>t. t_customerId t \<noteq> ident) (transactions s),
        payments := filter (\<lambda>p. p_customerId p \<noteq> ident) (payments s) \<rparr>"

definition getCustomerTransactions :: "string \<Rightarrow> store \<Rightarrow> Transaction list" where
  "getCustomerTransactions customerId s =
     filter (\<lambda>t. t_customerId t = customerId) (transactions s)"

definition getCustomerPayments :: "string \<Rightarrow> store \<Rightarrow> Payment list" where
  "getCustomerPayments customerId s =
     filter (\<lambda>p. p_customerId p = customerId) (payments s)"

text \<open>The status recomputed inside \<open>addPayment\<close> (the nested conditional of the source).\<close>

definition recomputed_status :: "real \<Rightarrow> real \<Rightarrow> tx_status" where
  "recomputed_status newAmountPaid total_amount =
     (if newAmountPaid \<ge> total_amount then Paid
      else if newAmountPaid > 0 then Partial
      else Pending)"

definition addPayment :: "string \<Rightarrow> Payment \<Rightarrow> store \<Rightarrow> Payment \<times> store" where
  "addPayment newId payment s =
     (let newPayment = payment\<lparr>p_id := newId\<rparr>;
          s1 = s\<lparr>payments := newPayment # payments s\<rparr>
      in case findIndex (\<lambda>t. t_id t = transactionId payment) (transactions s1) of
           None \<Rightarrow> (newPayment, s1)
         | Some txIndex \<Rightarrow>
             (let tx = transactions s1 ! txIndex;
                  newAmountPaid = amountPaid tx + amount payment
              in (newPayment,
                  s1\<lparr>transactions := (transactions s1)[txIndex :=
                        tx\<lparr>amountPaid := newAmountPaid,
                           status := recomputed_status newAmountPaid (totalAmount tx)\<rparr>]\<rparr>)))"

text \<open>A sequence of \<open>addPayment\<close> calls, each with the id generated for it.\<close>

fun addPayments :: "(string \<times> Payment) list \<Rightarrow> store \<Rightarrow> store" where
  "addPayments [] s = s"
| "addPayments (np # rest) s = addPayments rest (snd (addPayment (fst np) (snd np) s))"

section \<open>Aggregation engine (src/analytics.ts)\<close>

text \<open>
  The functions read the clock through \<open>new Date()\<close>; the model takes that Date as the
  argument \<open>now\<close>.  \<open>reduce\<close> with a start value is \<open>foldl\<close>.
\<close>

text \<open>
  A JavaScript \<open>Map\<close> iterates in insertion order and \<open>set\<close> on a key already present
  keeps the key's position: an association list, read with \<open>map_of\<close>.
\<close>

fun map_set :: "('k \<times> 'v) list \<Rightarrow> 'k \<Rightarrow> 'v \<Rightarrow> ('k \<times> 'v) list" where
  "map_set [] k v = [(k, v)]"
| "map_set (e # m) k v = (if fst e = k then (k, v) # m else e # map_set m k v)"

text \<open>
  The filter callback of \<open>getDashboardStats\<close> and \<open>getMonthlyRankings\<close>:
  \<open>txDate.getMonth() === m && txDate.getFullYear() === y\<close>.
\<close>

definition inMonth :: "int option \<Rightarrow> int option \<Rightarrow> Transaction \<Rightarrow> bool" where
  "inMonth m y t =
     (let txDate = t_date t
      in strict_eq (getMonth txDate) m \<and> strict_eq (getFullYear txDate) y)"

definition thisMonthTransactions :: "jsdate \<Rightarrow> Transaction list \<Rightarrow> Transaction list" where
  "thisMonthTransactions now txs = filter (inMonth (getMonth now) (getFullYear now)) txs"

text \<open>
  The map \<open>customerTotals\<close> of \<open>getDashboardStats\<close>; \<open>get(k) || 0\<close> is \<open>0\<close> for a
  missing key (and for a stored \<open>0\<close>).
\<close>

definition customerTotals :: "Transaction list \<Rightarrow> (string \<times> real) list" where
  "customerTotals txs =
     foldl (\<lambda>m t. map_set m (t_customerId t)
                     ((case map_of m (t_customerId t) of None \<Rightarrow> 0 | Some current \<Rightarrow> current)
                      + totalAmount t))
       [] txs"

text \<open>
  The loop over \<open>customerTotals\<close> that keeps \<open>(topCustomerId, topAmount)\<close>, started at
  the empty string and \<open>0\<close> and replaced only by a strictly larger amount.
\<close>

definition topEntry :: "(string \<times> real) list \<Rightarrow> string \<times> real" where
  "topEntry m = foldl (\<lambda>top e. if snd e > snd top then e else top) ([], 0) m"

record TopCustomer =
  tc_customer :: "Customer option"
  tc_amount :: real

record DashboardStats =
  totalCustomers :: nat
  thisMonthRevenue :: real
  pendingCollections :: real
  topCustomer :: TopCustomer

definition getDashboardStats :: "jsdate \<Rightarrow> Customer list \<Rightarrow> Transaction list \<Rightarrow> DashboardStats" where
  "getDashboardStats now custs txs =
     (let monthTxs = thisMonthTransactions now txs;
          revenue = foldl (\<lambda>sum t. sum + totalAmount t) 0 monthTxs;
          pendingSum = foldl (\<lambda>sum t. sum + (totalAmount t - amountPaid t)) 0 txs;
          top = topEntry (customerTotals monthTxs);
          topCust = find (\<lambda>c. c_id c = fst top) custs
      in \<lparr> totalCustomers = length custs,
           thisMonthRevenue = revenue,
           pendingCollections = pendingSum,
           topCustomer = \<lparr> tc_customer = topCust, tc_amount = snd top \<rparr> \<rparr>)"

record RankedCustomer =
  r_customer :: Customer
  rank :: nat
  r_totalAmount :: real
  transactionCount :: nat

text \<open>
  The map \<open>customerStats\<close> of \<open>getMonthlyRankings\<close>; a value is the pair
  \<open>(totalAmount, transactionCount)\<close>.
\<close>

definition customerStats :: "Transaction list \<Rightarrow> (string \<times> real \<times> nat) list" where
  "customerStats txs =
     foldl (\<lambda>m t.
              (let current = (case map_of m (t_customerId t) of None \<Rightarrow> (0, 0) | Some c \<Rightarrow> c)
               in map_set m (t_customerId t) (fst current + totalAmount t, snd current + 1)))
       [] txs"

text \<open>The entries pushed to \<open>rankings\<close>: one for every key that names a customer.\<close>

definition pushRankings :: "Customer list \<Rightarrow> (string \<times> real \<times> nat) list \<Rightarrow> RankedCustomer list" where
  "pushRankings custs m =
     concat (map (\<lambda>e. case find (\<lambda>c. c_id c = fst e) custs of
                         None \<Rightarrow> []
                       | Some customer \<Rightarrow>
                           [\<lparr> r_customer = customer, rank = 0,
                              r_totalAmount = fst (snd e), transactionCount = snd (snd e) \<rparr>]) m)"

text \<open>
  \<open>rankings.sort((a, b) => b.totalAmount - a.totalAmount)\<close>: \<open>Array.prototype.sort\<close> is
  stable, and so is the insertion sort \<open>sort_key\<close>; the key is the negated amount.
  Then every entry gets its position plus one as \<open>rank\<close>.
\<close>

definition getMonthlyRankings ::
  "jsdate \<Rightarrow> Customer list \<Rightarrow> Transaction list \<Rightarrow> int option \<Rightarrow> int option \<Rightarrow> RankedCustomer list" where
  "getMonthlyRankings now custs txs month year =
     (let targetMonth = (case month of None \<Rightarrow> getMonth now | Some m \<Rightarrow> Some m);
          targetYear = (case year of None \<Rightarrow> getFullYear now | Some y \<Rightarrow> Some y);
          monthTransactions = filter (inMonth targetMonth targetYear) txs;
          rankings = pushRankings custs (customerStats monthTransactions);
          sorted_rankings = sort_key (\<lambda>r. - r_totalAmount r) rankings
      in map (\<lambda>ir. (snd ir)\<lparr>rank := fst ir + 1\<rparr>) (enumerate 0 sorted_rankings))"

text \<open>
  \<open>new Date(y, m, 1)\<close> as far as the code reads it: the pair \<open>(getFullYear, getMonth)\<close>.
  A month outside 0..11 carries into the year; a year from 0 to 99 means 1900 + year.
\<close>

fun firstOfMonth :: "int option \<Rightarrow> int option \<Rightarrow> int option \<times> int option" where
  "firstOfMonth (Some y) (Some m) =
     (let y' = (if 0 \<le> y \<and> y \<le> 99 then 1900 + y else y)
      in (Some (y' + m div 12), Some (m mod 12)))"
| "firstOfMonth _ _ = (None, None)"

text \<open>\<open>toLocaleDateString("en-US", { month: "short" })\<close>.\<close>

definition monthShort :: "int option \<Rightarrow> string" where
  "monthShort m =
     (case m of
        None \<Rightarrow> ''Invalid Date''
      | Some k \<Rightarrow> [''Jan'', ''Feb'', ''Mar'', ''Apr'', ''May'', ''Jun'',
                   ''Jul'', ''Aug'', ''Sep'', ''Oct'', ''Nov'', ''Dec''] ! nat k)"

text \<open>
  \<open>!startDate || !endDate || (txDate >= startDate && txDate <= endDate)\<close> in
  \<open>getRevenueChartData\<close>: a Date object is always truthy, so \<open>!d\<close> holds exactly for a
  missing argument.
\<close>

fun inRange :: "jsdate option \<Rightarrow> jsdate option \<Rightarrow> jsdate \<Rightarrow> bool" where
  "inRange (Some startDate) (Some endDate) txDate =
     (js_ge (getTime txDate) (getTime startDate) \<and> js_le (getTime txDate) (getTime endDate))"
| "inRange _ _ txDate = True"

record ChartData =
  labels :: "string list"
  data :: "real list"

text \<open>One pass of the loop body for the counter \<open>i\<close>: the label and the month's revenue.\<close>

definition chartBucket ::
  "jsdate \<Rightarrow> Transaction list \<Rightarrow> jsdate option \<Rightarrow> jsdate option \<Rightarrow> int \<Rightarrow> string \<times> real" where
  "chartBucket now txs startDate endDate i =
     (let date = firstOfMonth (getFullYear now) (map_option (\<lambda>m. m - i) (getMonth now));
          monthName = monthShort (snd date);
          monthRevenue =
            foldl (\<lambda>sum t. sum + totalAmount t) 0
              (filter (\<lambda>t. let txDate = t_date t
                            in inRange startDate endDate txDate \<and>
                               strict_eq (getMonth txDate) (snd date) \<and>
                               strict_eq (getFullYear txDate) (fst date)) txs)
      in (monthName, monthRevenue))"

text \<open>\<open>for (let i = months - 1; i >= 0; i--)\<close> with \<open>months\<close> a whole number.\<close>

definition getRevenueChartData ::
  "jsdate \<Rightarrow> Transaction list \<Rightarrow> int \<Rightarrow> jsdate option \<Rightarrow> jsdate option \<Rightarrow> ChartData" where
  "getRevenueChartData now txs months startDate endDate =
     (let rows = map (chartBucket now txs startDate endDate) (rev [0..months - 1])
      in \<lparr> labels = map fst rows, data = map snd rows \<rparr>)"

text \<open>
  The filter callback of \<open>getPaymentStatusData\<close> (and \<open>getTopProducts\<close>): each bound is
  applied on its own when it is given.
\<close>

definition dateFilter :: "jsdate option \<Rightarrow> jsdate option \<Rightarrow> Transaction \<Rightarrow> bool" where
  "dateFilter startDate endDate t =
     (let txDate = t_date t
      in if (case startDate of None \<Rightarrow> False
                             | Some sd \<Rightarrow> js_lt (getTime txDate) (getTime sd)) then False
         else if (case endDate of None \<Rightarrow> False
                                | Some ed \<Rightarrow> js_gt (getTime txDate) (getTime ed)) then False
         else True)"

record PaymentStatusData =
  collected :: real
  pending :: real

definition getPaymentStatusData ::
  "Transaction list \<Rightarrow> jsdate option \<Rightarrow> jsdate option \<Rightarrow> PaymentStatusData" where
  "getPaymentStatusData txs startDate endDate =
     (let filtered = filter (dateFilter startDate endDate) txs
      in \<lparr> collected = foldl (\<lambda>sum t. sum + amountPaid t) 0 filtered,
           pending = foldl (\<lambda>sum t. sum + (totalAmount t - amountPaid t)) 0 filtered \<rparr>)"

section \<open>Notions used to state the properties\<close>

text \<open>The summed \<open>totalAmount\<close> of the transactions of one customer.\<close>

definition customerSum :: "Transaction list \<Rightarrow> string \<Rightarrow> real" where
  "customerSum txs c = sum_list (map totalAmount (filter (\<lambda>t. t_customerId t = c) txs))"

text \<open>
  A date falls in the calendar month and year of another: both are valid and their local
  year and month agree.
\<close>

fun sameCalendarMonth :: "jsdate \<Rightarrow> jsdate \<Rightarrow> bool" where
  "sameCalendarMonth (Date_at ms y m) (Date_at ms' y' m') = (y = y' \<and> m = m')"
| "sameCalendarMonth _ _ = False"

text \<open>The elements of a list in the order of their first occurrence.\<close>

definition firsts :: "'a list \<Rightarrow> 'a list" where
  "firsts xs = rev (remdups (rev xs))"

text \<open>The three-way rule of the data model, as the specification words it.\<close>

definition three_way_rule :: "Transaction \<Rightarrow> bool" where
  "three_way_rule t =
     ((status t = Paid \<longleftrightarrow> amountPaid t \<ge> totalAmount t) \<and>
      (status t = Pending \<longleftrightarrow> amountPaid t \<le> 0) \<and>
      (status t = Partial \<longleftrightarrow> \<not> amountPaid t \<ge> totalAmount t \<and> \<not> amountPaid t \<le> 0))"

section \<open>Example data\<close>

text \<open>
  Dates in November and October 2026, each at 12:00 UTC, with the time value in
  milliseconds since the epoch.
\<close>

definition nov1 :: jsdate where "nov1 = Date_at 1793534400000 2026 10"

definition nov2 :: jsdate where "nov2 = Date_at 1793620800000 2026 10"

definition nov3 :: jsdate where "nov3 = Date_at 1793707200000 2026 10"

definition oct15 :: jsdate where "oct15 = Date_at 1792065600000 2026 9"

definition customer_named :: "string \<Rightarrow> string \<Rightarrow> Customer" where
  "customer_named i n =
     \<lparr> c_id = i, c_name = n, businessName = [], mobile = [], email = [], address = [],
       businessType = [], cardImageUri = None,
       c_createdAt = ''2026-10-01T09:00:00.000Z'', updatedAt = ''2026-10-01T09:00:00.000Z'' \<rparr>"

definition sale :: "string \<Rightarrow> string \<Rightarrow> jsdate \<Rightarrow> real \<Rightarrow> real \<Rightarrow> tx_status \<Rightarrow> Transaction" where
  "sale i c d tot paid st =
     \<lparr> t_id = i, t_customerId = c, t_date = d, products = [], totalAmount = tot,
       amountPaid = paid, status = st, t_notes = None,
       t_createdAt = ''2026-10-01T09:00:00.000Z'' \<rparr>"

definition payment_for :: "string \<Rightarrow> string \<Rightarrow> real \<Rightarrow> Payment" where
  "payment_for tx c a =
     \<lparr> p_id = [], transactionId = tx, p_customerId = c, amount = a,
       p_date = ''2026-11-03T12:00:00.000Z'', p_method = Cash, p_notes = None \<rparr>"

definition no_updates :: CustomerUpdates where
  "no_updates =
     \<lparr> u_id = None, u_name = None, u_businessName = None, u_mobile = None, u_email = None,
       u_address = None, u_businessType = None, u_cardImageUri = None, u_createdAt = None,
       u_updatedAt = None \<rparr>"

text \<open>
  The ledger of the specification's example: customer \<open>c1\<close> with \<open>T1\<close> (1000, paid in
  full) and \<open>T2\<close> (500, of which 200 are paid).
\<close>

definition ledger :: store where
  "ledger =
     \<lparr> customers = [customer_named ''c1'' ''Asha''],
       transactions = [sale ''T1'' ''c1'' oct15 1000 1000 Paid,
                       sale ''T2'' ''c1'' nov1 500 200 Partial],
       payments = [] \<rparr>"

text \<open>A store whose only transaction names a customer that does not exist.\<close>

definition orphaned :: store where
  "orphaned =
     \<lparr> customers = [customer_named ''c1'' ''Asha''],
       transactions = [sale ''T7'' ''ghost'' nov1 40 0 Pending],
       payments = [] \<rparr>"

text \<open>Two customers with one sale of 100 each in November 2026.\<close>

definition two_customers :: "Customer list" where
  "two_customers = [customer_named ''c1'' ''Asha'', customer_named ''c2'' ''Ravi'']"

definition tied_sales :: "Transaction list" where
  "tied_sales = [sale ''T1'' ''c1'' nov1 100 0 Pending, sale ''T2'' ''c2'' nov2 100 0 Pending]"

text \<open>A sale whose only product has the unit price 0.\<close>

definition free_sample :: "Transaction list" where
  "free_sample = [sale ''T1'' ''c1'' nov1 0 0 Paid]"

text \<open>
  A ledger whose only transaction has the total 0 (a product with the unit price 0), with
  the status the entry screen derives for it.
\<close>

definition free_ledger :: store where
  "free_ledger =
     \<lparr> customers = [customer_named ''c1'' ''Asha''],
       transactions = [sale ''T0'' ''c1'' nov1 0 0 Paid],
       payments = [] \<rparr>"

section \<open>Facts about the ledger rules\<close>

lemma findIndex_Some_less: "findIndex P xs = Some i \<Longrightarrow> i < length xs"
  by (induction xs arbitrary: i) (auto split: if_splits)

lemma findIndex_Some_holds: "findIndex P xs = Some i \<Longrightarrow> P (xs ! i)"
  by (induction xs arbitrary: i) (auto split: if_splits)

lemma findIndex_None_iff: "findIndex P xs = None \<longleftrightarrow> (\<forall>x \<in> set xs. \<not> P x)"
  by (induction xs) auto

lemma findIndex_update_same:
  "findIndex P xs = Some i \<Longrightarrow> P y \<Longrightarrow> findIndex P (xs[i := y]) = Some i"
proof (induction xs arbitrary: i)
  case Nil
  then show ?case by simp
next
  case (Cons x xs)
  show ?case
  proof (cases "P x")
    case True
    with Cons.prems show ?thesis by simp
  next
    case False
    with Cons.prems obtain j where j: "findIndex P xs = Some j" "i = Suc j"
      by auto
    with Cons.IH [OF j(1) Cons.prems(2)] False show ?thesis by simp
  qed
qed

lemma addPayment_found:
  assumes "findIndex (\<lambda>t. t_id t = transactionId p) (transactions s) = Some i"
  shows "snd (addPayment n p s) =
           s\<lparr>payments := p\<lparr>p_id := n\<rparr> # payments s,
             transactions := (transactions s)[i :=
               (transactions s ! i)\<lparr>amountPaid := amountPaid (transactions s ! i) + amount p,
                  status := recomputed_status (amountPaid (transactions s ! i) + amount p)
                              (totalAmount (transactions s ! i))\<rparr>]\<rparr>"
  using assms by (simp add: addPayment_def Let_def)

lemma addPayment_not_found:
  assumes "findIndex (\<lambda>t. t_id t = transactionId p) (transactions s) = None"
  shows "snd (addPayment n p s) = s\<lparr>payments := p\<lparr>p_id := n\<rparr> # payments s\<rparr>"
  using assms by (simp add: addPayment_def Let_def)

lemma addPayment_fst: "fst (addPayment n p s) = p\<lparr>p_id := n\<rparr>"
  by (simp add: addPayment_def Let_def split: option.splits)

lemma addPayment_tx_at:
  assumes f: "findIndex (\<lambda>t. t_id t = transactionId p) (transactions s) = Some i"
  shows "findIndex (\<lambda>t. t_id t = transactionId p) (transactions (snd (addPayment n p s))) = Some i"
    and "totalAmount (transactions (snd (addPayment n p s)) ! i) = totalAmount (transactions s ! i)"
    and "amountPaid (transactions (snd (addPayment n p s)) ! i)
           = amountPaid (transactions s ! i) + amount p"
    and "status (transactions (snd (addPayment n p s)) ! i)
           = recomputed_status (amountPaid (transactions s ! i) + amount p)
               (totalAmount (transactions s ! i))"
proof -
  have len: "i < length (transactions s)" using f by (rule findIndex_Some_less)
  have idp: "t_id (transactions s ! i) = transactionId p"
    using findIndex_Some_holds [OF f] by simp
  show "findIndex (\<lambda>t. t_id t = transactionId p) (transactions (snd (addPayment n p s))) = Some i"
    unfolding addPayment_found [OF f] using f idp
    by (simp add: findIndex_update_same)
  show "totalAmount (transactions (snd (addPayment n p s)) ! i) = totalAmount (transactions s ! i)"
    unfolding addPayment_found [OF f] using len by simp
  show "amountPaid (transactions (snd (addPayment n p s)) ! i)
           = amountPaid (transactions s ! i) + amount p"
    unfolding addPayment_found [OF f] using len by simp
  show "status (transactions (snd (addPayment n p s)) ! i)
           = recomputed_status (amountPaid (transactions s ! i) + amount p)
               (totalAmount (transactions s ! i))"
    unfolding addPayment_found [OF f] using len by simp
qed

lemma addPayments_tx_at:
  assumes "findIndex (\<lambda>t. t_id t = tid) (transactions s) = Some i"
      and "\<forall>np \<in> set ps. transactionId (snd np) = tid"
  shows "findIndex (\<lambda>t. t_id t = tid) (transactions (addPayments ps s)) = Some i \<and>
         totalAmount (transactions (addPayments ps s) ! i) = totalAmount (transactions s ! i) \<and>
         amountPaid (transactions (addPayments ps s) ! i)
           = amountPaid (transactions s ! i) + sum_list (map (\<lambda>np. amount (snd np)) ps) \<and>
         (ps \<noteq> [] \<longrightarrow>
            status (transactions (addPayments ps s) ! i)
              = recomputed_status (amountPaid (transactions (addPayments ps s) ! i))
                  (totalAmount (transactions (addPayments ps s) ! i)))"
  using assms
proof (induction ps arbitrary: s)
  case Nil
  then show ?case by simp
next
  case (Cons np rest)
  let ?s1 = "snd (addPayment (fst np) (snd np) s)"
  have tid: "transactionId (snd np) = tid" using Cons.prems(2) by simp
  have f: "findIndex (\<lambda>t. t_id t = transactionId (snd np)) (transactions s) = Some i"
    using Cons.prems(1) tid by simp
  note step = addPayment_tx_at [OF f, of "fst np"]
  have f1: "findIndex (\<lambda>t. t_id t = tid) (transactions ?s1) = Some i"
    using step(1) tid by simp
  have rest: "\<forall>np \<in> set rest. transactionId (snd np) = tid" using Cons.prems(2) by simp
  note ih = Cons.IH [OF f1 rest]
  show ?case
  proof (cases "rest = []")
    case True
    then show ?thesis using step f1 by simp
  next
    case False
    then show ?thesis using ih step by (simp add: add.assoc)
  qed
qed

lemma recomputed_status_three_way:
  assumes "0 < total_amount \<or> 0 < a"
  shows "(recomputed_status a total_amount = Paid \<longleftrightarrow> a \<ge> total_amount) \<and>
         (recomputed_status a total_amount = Pending \<longleftrightarrow> a \<le> 0) \<and>
         (recomputed_status a total_amount = Partial \<longleftrightarrow> \<not> a \<ge> total_amount \<and> \<not> a \<le> 0)"
  using assms by (auto simp: recomputed_status_def)

text \<open>
  Claim C1 as stated fails where the rule's clauses overlap: a payment of 0 on a
  transaction of total 0 leaves \<open>amountPaid = 0\<close>, which is both \<open>\<ge> totalAmount\<close> and
  \<open>\<le> 0\<close>; the code answers \<open>paid\<close>, so \<open>pending\<close> iff \<open>amountPaid \<le> 0\<close> is false.
\<close>

theorem addPayment_zero_total_counterexample:
  "findIndex (\<lambda>t. t_id t = ''T0'') (transactions free_ledger) = Some 0 \<and>
   status (transactions (addPayments [(''p1'', payment_for ''T0'' ''c1'' 0)] free_ledger) ! 0) = Paid \<and>
   amountPaid (transactions (addPayments [(''p1'', payment_for ''T0'' ''c1'' 0)] free_ledger) ! 0) \<le> 0 \<and>
   \<not> three_way_rule (transactions (addPayments [(''p1'', payment_for ''T0'' ''c1'' 0)] free_ledger) ! 0)"
  by (simp add: three_way_rule_def addPayment_def free_ledger_def sale_def payment_for_def
        recomputed_status_def Let_def)

lemma recomputed_status_cases:
  "(recomputed_status a total_amount = Paid \<longleftrightarrow> a \<ge> total_amount) \<and>
   (recomputed_status a total_amount = Pending \<longleftrightarrow> a \<le> 0 \<and> a < total_amount) \<and>
   (recomputed_status a total_amount = Partial \<longleftrightarrow> 0 < a \<and> a < total_amount)"
  by (auto simp: recomputed_status_def)

text \<open>
  Claim C1, amended.  Take a transaction that \<open>findIndex\<close> finds under its id and any
  sequence of one or more \<open>addPayment\<close> calls that all reference it.  Afterwards the same
  position still holds that transaction, and its status is \<open>paid\<close> iff
  \<open>amountPaid \<ge> totalAmount\<close>, \<open>pending\<close> iff \<open>amountPaid \<le> 0\<close> and
  \<open>amountPaid < totalAmount\<close>, and \<open>partial\<close> iff \<open>0 < amountPaid < totalAmount\<close>.  Whenever
  \<open>totalAmount\<close> or the resulting \<open>amountPaid\<close> is positive this is the three-way rule
  as the specification words it.
\<close>

theorem addPayment_sequence_status_rule:
  assumes "findIndex (\<lambda>t. t_id t = tid) (transactions s) = Some i"
      and "ps \<noteq> []"
      and "\<forall>np \<in> set ps. transactionId (snd np) = tid"
  shows "findIndex (\<lambda>t. t_id t = tid) (transactions (addPayments ps s)) = Some i \<and>
         (status (transactions (addPayments ps s) ! i) = Paid \<longleftrightarrow>
            amountPaid (transactions (addPayments ps s) ! i)
              \<ge> totalAmount (transactions (addPayments ps s) ! i)) \<and>
         (status (transactions (addPayments ps s) ! i) = Pending \<longleftrightarrow>
            amountPaid (transactions (addPayments ps s) ! i) \<le> 0 \<and>
            amountPaid (transactions (addPayments ps s) ! i)
              < totalAmount (transactions (addPayments ps s) ! i)) \<and>
         (status (transactions (addPayments ps s) ! i) = Partial \<longleftrightarrow>
            0 < amountPaid (transactions (addPayments ps s) ! i) \<and>
            amountPaid (transactions (addPayments ps s) ! i)
              < totalAmount (transactions (addPayments ps s) ! i)) \<and>
         (0 < totalAmount (transactions (addPayments ps s) ! i) \<or>
          0 < amountPaid (transactions (addPayments ps s) ! i) \<longrightarrow>
            three_way_rule (transactions (addPayments ps s) ! i))"
proof -
  note facts = addPayments_tx_at [OF assms(1) assms(3)]
  let ?t = "transactions (addPayments ps s) ! i"
  have st: "status ?t = recomputed_status (amountPaid ?t) (totalAmount ?t)"
    using facts assms(2) by simp
  have rule: "0 < totalAmount ?t \<or> 0 < amountPaid ?t \<longrightarrow> three_way_rule ?t"
    using recomputed_status_three_way [of "totalAmount ?t" "amountPaid ?t"] st
    unfolding three_way_rule_def by auto
  show ?thesis
    using facts rule recomputed_status_cases [of "amountPaid ?t" "totalAmount ?t"]
    unfolding st [symmetric] by simp
qed

text \<open>
  The specification's example: \<open>T2\<close> (500, 200 paid) receives a payment of 300 and
  becomes \<open>paid\<close> with \<open>amountPaid = 500\<close>.
\<close>

theorem addPayment_sequence_status_rule_witness:
  "status (transactions (addPayments [(''p1'', payment_for ''T2'' ''c1'' 300)] ledger) ! 1) = Paid \<and>
   amountPaid (transactions (addPayments [(''p1'', payment_for ''T2'' ''c1'' 300)] ledger) ! 1) = 500 \<and>
   three_way_rule (transactions (addPayments [(''p1'', payment_for ''T2'' ''c1'' 300)] ledger) ! 1)"
proof -
  have h1: "findIndex (\<lambda>t. t_id t = ''T2'') (transactions ledger) = Some 1"
    by (simp add: ledger_def sale_def)
  have h2: "[(''p1'', payment_for ''T2'' ''c1'' 300)] \<noteq> []" by simp
  have h3: "\<forall>np \<in> set [(''p1'', payment_for ''T2'' ''c1'' 300)]. transactionId (snd np) = ''T2''"
    by (simp add: payment_for_def)
  have ev: "status (transactions (addPayments [(''p1'', payment_for ''T2'' ''c1'' 300)] ledger) ! 1) = Paid \<and>
   amountPaid (transactions (addPayments [(''p1'', payment_for ''T2'' ''c1'' 300)] ledger) ! 1) = 500"
    by (simp add: addPayment_def ledger_def sale_def payment_for_def recomputed_status_def Let_def)
  show ?thesis using addPayment_sequence_status_rule [OF h1 h2 h3] ev by simp
qed

text \<open>
  Claim C10.  A payment with a positive amount, applied by \<open>addPayment\<close> to an existing
  transaction whose \<open>amountPaid\<close> was not negative, never leaves the status \<open>pending\<close>:
  the new \<open>amountPaid\<close> is strictly positive.
\<close>

theorem addPayment_positive_not_pending:
  assumes "findIndex (\<lambda>t. t_id t = transactionId p) (transactions s) = Some i"
      and "0 < amount p"
      and "0 \<le> amountPaid (transactions s ! i)"
  shows "status (transactions (snd (addPayment n p s)) ! i) \<noteq> Pending \<and>
         0 < amountPaid (transactions (snd (addPayment n p s)) ! i)"
  using addPayment_tx_at(3,4) [OF assms(1), of n] assms(2,3)
  by (simp add: recomputed_status_def)

text \<open>\<open>T2\<close> (500, 200 paid) with a payment of 100 stays \<open>partial\<close>.\<close>

theorem addPayment_positive_not_pending_witness:
  "status (transactions (snd (addPayment ''p1'' (payment_for ''T2'' ''c1'' 100) ledger)) ! 1) = Partial \<and>
   status (transactions (snd (addPayment ''p1'' (payment_for ''T2'' ''c1'' 100) ledger)) ! 1) \<noteq> Pending"
proof -
  have h1: "findIndex (\<lambda>t. t_id t = transactionId (payment_for ''T2'' ''c1'' 100))
              (transactions ledger) = Some 1"
    by (simp add: ledger_def sale_def payment_for_def)
  have h2: "0 < amount (payment_for ''T2'' ''c1'' 100)" by (simp add: payment_for_def)
  have h3: "0 \<le> amountPaid (transactions ledger ! 1)" by (simp add: ledger_def sale_def)
  have ev: "status (transactions (snd (addPayment ''p1'' (payment_for ''T2'' ''c1'' 100) ledger)) ! 1) = Partial"
    by (simp add: addPayment_def ledger_def sale_def payment_for_def recomputed_status_def Let_def)
  show ?thesis using addPayment_positive_not_pending [OF h1 h2 h3, of "''p1''"] ev by simp
qed

text \<open>
  Claim C7.  \<open>addPayment\<close> always records the new payment (with the generated id, at the
  head of the payments collection) and returns it.  When no transaction has the referenced
  id the transactions collection is unchanged.  When one has, its \<open>amountPaid\<close> becomes
  the prior \<open>amountPaid\<close> plus the payment's amount, whatever \<open>totalAmount\<close> is, and
  every other transaction stays as it was.
\<close>

theorem addPayment_records_payment:
  "fst (addPayment n p s) = p\<lparr>p_id := n\<rparr> \<and>
   payments (snd (addPayment n p s)) = p\<lparr>p_id := n\<rparr> # payments s \<and>
   customers (snd (addPayment n p s)) = customers s \<and>
   (findIndex (\<lambda>t. t_id t = transactionId p) (transactions s) = None \<longrightarrow>
      transactions (snd (addPayment n p s)) = transactions s) \<and>
   (\<forall>i. findIndex (\<lambda>t. t_id t = transactionId p) (transactions s) = Some i \<longrightarrow>
      amountPaid (transactions (snd (addPayment n p s)) ! i)
        = amountPaid (transactions s ! i) + amount p \<and>
      totalAmount (transactions (snd (addPayment n p s)) ! i) = totalAmount (transactions s ! i) \<and>
      length (transactions (snd (addPayment n p s))) = length (transactions s) \<and>
      (\<forall>j. j \<noteq> i \<longrightarrow> transactions (snd (addPayment n p s)) ! j = transactions s ! j))"
proof -
  have "fst (addPayment n p s) = p\<lparr>p_id := n\<rparr>" by (rule addPayment_fst)
  moreover have "payments (snd (addPayment n p s)) = p\<lparr>p_id := n\<rparr> # payments s"
    by (simp add: addPayment_def Let_def split: option.splits)
  moreover have "customers (snd (addPayment n p s)) = customers s"
    by (simp add: addPayment_def Let_def split: option.splits)
  moreover have "findIndex (\<lambda>t. t_id t = transactionId p) (transactions s) = None \<longrightarrow>
      transactions (snd (addPayment n p s)) = transactions s"
    by (simp add: addPayment_not_found)
  moreover have "\<forall>i. findIndex (\<lambda>t. t_id t = transactionId p) (transactions s) = Some i \<longrightarrow>
      amountPaid (transactions (snd (addPayment n p s)) ! i)
        = amountPaid (transactions s ! i) + amount p \<and>
      totalAmount (transactions (snd (addPayment n p s)) ! i) = totalAmount (transactions s ! i) \<and>
      length (transactions (snd (addPayment n p s))) = length (transactions s) \<and>
      (\<forall>j. j \<noteq> i \<longrightarrow> transactions (snd (addPayment n p s)) ! j = transactions s ! j)"
  proof (intro allI impI)
    fix i
    assume f: "findIndex (\<lambda>t. t_id t = transactionId p) (transactions s) = Some i"
    have "length (transactions (snd (addPayment n p s))) = length (transactions s)"
      unfolding addPayment_found [OF f] by simp
    moreover have "\<forall>j. j \<noteq> i \<longrightarrow> transactions (snd (addPayment n p s)) ! j = transactions s ! j"
      unfolding addPayment_found [OF f] by simp
    ultimately show "amountPaid (transactions (snd (addPayment n p s)) ! i)
        = amountPaid (transactions s ! i) + amount p \<and>
      totalAmount (transactions (snd (addPayment n p s)) ! i) = totalAmount (transactions s ! i) \<and>
      length (transactions (snd (addPayment n p s))) = length (transactions s) \<and>
      (\<forall>j. j \<noteq> i \<longrightarrow> transactions (snd (addPayment n p s)) ! j = transactions s ! j)"
      using addPayment_tx_at(2,3) [OF f, of n] by simp
  qed
  ultimately show ?thesis by blast
qed

text \<open>
  A payment for the unknown transaction \<open>T9\<close> is recorded and changes no transaction; a
  payment of 400 for \<open>T2\<close> (500, 200 paid) gives \<open>amountPaid = 600\<close>, above the total.
\<close>

theorem addPayment_records_payment_witness:
  "transactions (snd (addPayment ''p1'' (payment_for ''T9'' ''c1'' 50) ledger)) = transactions ledger \<and>
   payments (snd (addPayment ''p1'' (payment_for ''T9'' ''c1'' 50) ledger))
     = [(payment_for ''T9'' ''c1'' 50)\<lparr>p_id := ''p1''\<rparr>] \<and>
   amountPaid (transactions (snd (addPayment ''p2'' (payment_for ''T2'' ''c1'' 400) ledger)) ! 1) = 600 \<and>
   totalAmount (transactions (snd (addPayment ''p2'' (payment_for ''T2'' ''c1'' 400) ledger)) ! 1) = 500"
proof -
  have h1: "findIndex (\<lambda>t. t_id t = transactionId (payment_for ''T9'' ''c1'' 50))
              (transactions ledger) = None"
    by (simp add: ledger_def sale_def payment_for_def)
  have h2: "findIndex (\<lambda>t. t_id t = transactionId (payment_for ''T2'' ''c1'' 400))
              (transactions ledger) = Some 1"
    by (simp add: ledger_def sale_def payment_for_def)
  have v: "payments ledger = []" "amountPaid (transactions ledger ! 1) = 200"
    "totalAmount (transactions ledger ! 1) = 500" "amount (payment_for ''T2'' ''c1'' 400) = 400"
    by (simp_all add: ledger_def sale_def payment_for_def)
  show ?thesis
    using addPayment_records_payment [of "''p1''" "payment_for ''T9'' ''c1'' 50" ledger]
          addPayment_records_payment [of "''p2''" "payment_for ''T2'' ''c1'' 400" ledger] h1 h2 v
    by simp
qed

text \<open>
  Claim C6 as stated fails: no customer has the id \<open>ghost\<close>, yet deleting that id removes
  the transaction that carries it as \<open>customerId\<close>.
\<close>

theorem deleteCustomer_unmatched_id_counterexample:
  "findIndex (\<lambda>c. c_id c = ''ghost'') (customers orphaned) = None \<and>
   transactions (deleteCustomer ''ghost'' orphaned) = [] \<and>
   transactions orphaned \<noteq> []"
  by (simp add: orphaned_def deleteCustomer_def customer_named_def sale_def)

text \<open>
  Claim C6, amended.  \<open>deleteCustomer\<close> removes exactly the customers with the id and the
  transactions and payments whose \<open>customerId\<close> is the id; afterwards
  \<open>getCustomerTransactions\<close> and \<open>getCustomerPayments\<close> for the id are empty and those for
  every other id are as before.  When the id matches no customer and no transaction or
  payment carries it, the three collections are unchanged.
\<close>

theorem deleteCustomer_cascade:
  "set (customers (deleteCustomer ident s)) = {c \<in> set (customers s). c_id c \<noteq> ident} \<and>
   set (transactions (deleteCustomer ident s)) = {t \<in> set (transactions s). t_customerId t \<noteq> ident} \<and>
   set (payments (deleteCustomer ident s)) = {p \<in> set (payments s). p_customerId p \<noteq> ident} \<and>
   getCustomerTransactions ident (deleteCustomer ident s) = [] \<and>
   getCustomerPayments ident (deleteCustomer ident s) = [] \<and>
   (\<forall>other. other \<noteq> ident \<longrightarrow>
      getCustomerTransactions other (deleteCustomer ident s) = getCustomerTransactions other s \<and>
      getCustomerPayments other (deleteCustomer ident s) = getCustomerPayments other s) \<and>
   ((\<forall>c \<in> set (customers s). c_id c \<noteq> ident) \<and>
    (\<forall>t \<in> set (transactions s). t_customerId t \<noteq> ident) \<and>
    (\<forall>p \<in> set (payments s). p_customerId p \<noteq> ident) \<longrightarrow> deleteCustomer ident s = s)"
proof -
  have a: "set (customers (deleteCustomer ident s)) = {c \<in> set (customers s). c_id c \<noteq> ident}"
    by (simp add: deleteCustomer_def)
  have b: "set (transactions (deleteCustomer ident s)) = {t \<in> set (transactions s). t_customerId t \<noteq> ident}"
    by (simp add: deleteCustomer_def)
  have c: "set (payments (deleteCustomer ident s)) = {p \<in> set (payments s). p_customerId p \<noteq> ident}"
    by (simp add: deleteCustomer_def)
  have d: "getCustomerTransactions ident (deleteCustomer ident s) = []"
    by (simp add: deleteCustomer_def getCustomerTransactions_def)
  have e: "getCustomerPayments ident (deleteCustomer ident s) = []"
    by (simp add: deleteCustomer_def getCustomerPayments_def)
  have f: "\<forall>other. other \<noteq> ident \<longrightarrow>
      getCustomerTransactions other (deleteCustomer ident s) = getCustomerTransactions other s \<and>
      getCustomerPayments other (deleteCustomer ident s) = getCustomerPayments other s"
    by (auto simp: deleteCustomer_def getCustomerTransactions_def getCustomerPayments_def
             intro: filter_cong)
  have g: "(\<forall>c \<in> set (customers s). c_id c \<noteq> ident) \<and>
    (\<forall>t \<in> set (transactions s). t_customerId t \<noteq> ident) \<and>
    (\<forall>p \<in> set (payments s). p_customerId p \<noteq> ident) \<longrightarrow> deleteCustomer ident s = s"
    by (simp add: deleteCustomer_def filter_id_conv)
  from a b c d e f g show ?thesis by blast
qed

text \<open>Deleting \<open>c1\<close> empties the example ledger; deleting the unknown \<open>zz\<close> changes nothing.\<close>

theorem deleteCustomer_cascade_witness:
  "customers (deleteCustomer ''c1'' ledger) = [] \<and>
   transactions (deleteCustomer ''c1'' ledger) = [] \<and>
   getCustomerTransactions ''c1'' (deleteCustomer ''c1'' ledger) = [] \<and>
   deleteCustomer ''zz'' ledger = ledger"
proof -
  have h: "(\<forall>c \<in> set (customers ledger). c_id c \<noteq> ''zz'') \<and>
    (\<forall>t \<in> set (transactions ledger). t_customerId t \<noteq> ''zz'') \<and>
    (\<forall>p \<in> set (payments ledger). p_customerId p \<noteq> ''zz'')"
    by (simp add: ledger_def customer_named_def sale_def)
  have ev: "customers (deleteCustomer ''c1'' ledger) = [] \<and>
   transactions (deleteCustomer ''c1'' ledger) = []"
    by (simp add: deleteCustomer_def ledger_def customer_named_def sale_def)
  show ?thesis using deleteCustomer_cascade [of "''zz''" ledger] deleteCustomer_cascade [of "''c1''" ledger] h ev by simp
qed

text \<open>
  Claim C8 as stated fails: an update that carries an \<open>id\<close> field replaces the id of the
  customer it is merged into.
\<close>

theorem updateCustomer_id_counterexample:
  "findIndex (\<lambda>c. c_id c = ''c1'') (customers ledger) = Some 0 \<and>
   c_id (customers ledger ! 0) = ''c1'' \<and>
   c_id (customers (snd (updateCustomer ''2026-11-03T12:00:00.000Z'' ''c1''
           (no_updates\<lparr>u_id := Some ''c9''\<rparr>) ledger)) ! 0) = ''c9''"
  by (simp add: updateCustomer_def applyUpdates_def ledger_def customer_named_def no_updates_def Let_def)

text \<open>
  Claim C8, amended.  For an id that matches no customer \<open>updateCustomer\<close> returns
  \<open>null\<close> and the store is unchanged.  For an existing customer it returns the merged
  customer stored at the same position, with \<open>updatedAt\<close> the current time; the id is
  unchanged when the update carries no \<open>id\<close> field and is the carried id otherwise; the
  other customers, the transactions and the payments are unchanged.
\<close>

theorem updateCustomer_merge:
  "(findIndex (\<lambda>c. c_id c = ident) (customers s) = None \<longrightarrow>
      updateCustomer nowIso ident u s = (None, s)) \<and>
   (\<forall>i. findIndex (\<lambda>c. c_id c = ident) (customers s) = Some i \<longrightarrow>
      fst (updateCustomer nowIso ident u s)
        = Some (customers (snd (updateCustomer nowIso ident u s)) ! i) \<and>
      updatedAt (customers (snd (updateCustomer nowIso ident u s)) ! i) = nowIso \<and>
      c_id (customers (snd (updateCustomer nowIso ident u s)) ! i)
        = (case u_id u of None \<Rightarrow> ident | Some v \<Rightarrow> v) \<and>
      length (customers (snd (updateCustomer nowIso ident u s))) = length (customers s) \<and>
      (\<forall>j. j \<noteq> i \<longrightarrow> customers (snd (updateCustomer nowIso ident u s)) ! j = customers s ! j) \<and>
      transactions (snd (updateCustomer nowIso ident u s)) = transactions s \<and>
      payments (snd (updateCustomer nowIso ident u s)) = payments s)"
proof (intro conjI allI impI)
  assume "findIndex (\<lambda>c. c_id c = ident) (customers s) = None"
  then show "updateCustomer nowIso ident u s = (None, s)"
    by (simp add: updateCustomer_def)
next
  fix i
  assume f: "findIndex (\<lambda>c. c_id c = ident) (customers s) = Some i"
  have len: "i < length (customers s)" using f by (rule findIndex_Some_less)
  have idc: "c_id (customers s ! i) = ident" using findIndex_Some_holds [OF f] by simp
  have eq: "updateCustomer nowIso ident u s =
          (Some (applyUpdates (customers s ! i) u nowIso),
           s\<lparr>customers := (customers s)[i := applyUpdates (customers s ! i) u nowIso]\<rparr>)"
    using f by (simp add: updateCustomer_def Let_def)
  show "fst (updateCustomer nowIso ident u s)
        = Some (customers (snd (updateCustomer nowIso ident u s)) ! i)"
    using len by (simp add: eq)
  show "updatedAt (customers (snd (updateCustomer nowIso ident u s)) ! i) = nowIso"
    using len by (simp add: eq applyUpdates_def)
  show "c_id (customers (snd (updateCustomer nowIso ident u s)) ! i)
        = (case u_id u of None \<Rightarrow> ident | Some v \<Rightarrow> v)"
    using len idc by (simp add: eq applyUpdates_def split: option.splits)
  show "length (customers (snd (updateCustomer nowIso ident u s))) = length (customers s)"
    by (simp add: eq)
  show "transactions (snd (updateCustomer nowIso ident u s)) = transactions s"
    by (simp add: eq)
  show "payments (snd (updateCustomer nowIso ident u s)) = payments s"
    by (simp add: eq)
  fix j
  assume "j \<noteq> i"
  then show "customers (snd (updateCustomer nowIso ident u s)) ! j = customers s ! j"
    by (simp add: eq)
qed

text \<open>Renaming \<open>c1\<close> keeps its id and stamps \<open>updatedAt\<close>; the unknown \<open>zz\<close> gives \<open>null\<close>.\<close>

theorem updateCustomer_merge_witness:
  "c_id (customers (snd (updateCustomer ''2026-11-03T12:00:00.000Z'' ''c1''
           (no_updates\<lparr>u_name := Some ''Asha K''\<rparr>) ledger)) ! 0) = ''c1'' \<and>
   updatedAt (customers (snd (updateCustomer ''2026-11-03T12:00:00.000Z'' ''c1''
           (no_updates\<lparr>u_name := Some ''Asha K''\<rparr>) ledger)) ! 0) = ''2026-11-03T12:00:00.000Z'' \<and>
   updateCustomer ''2026-11-03T12:00:00.000Z'' ''zz'' (no_updates\<lparr>u_name := Some ''Asha K''\<rparr>) ledger
     = (None, ledger)"
proof -
  have h1: "findIndex (\<lambda>c. c_id c = ''c1'') (customers ledger) = Some 0"
    by (simp add: ledger_def customer_named_def)
  have h2: "findIndex (\<lambda>c. c_id c = ''zz'') (customers ledger) = None"
    by (simp add: ledger_def customer_named_def)
  have h3: "u_id (no_updates\<lparr>u_name := Some ''Asha K''\<rparr>) = None"
    by (simp add: no_updates_def)
  show ?thesis
    using updateCustomer_merge [of "''c1''" ledger "''2026-11-03T12:00:00.000Z''" "no_updates\<lparr>u_name := Some ''Asha K''\<rparr>"]
          updateCustomer_merge [of "''zz''" ledger "''2026-11-03T12:00:00.000Z''" "no_updates\<lparr>u_name := Some ''Asha K''\<rparr>"]
          h1 h2 h3
    by simp
qed

section \<open>Facts about the aggregation engine\<close>

lemma foldl_add_sum_list:
  "foldl (\<lambda>sum t. sum + f t) a xs = a + sum_list (map f xs)" for a :: real
  by (induction xs arbitrary: a) (simp_all add: add.assoc)

lemma inMonth_sameCalendarMonth:
  "inMonth (getMonth now) (getFullYear now) t = sameCalendarMonth (t_date t) now"
  by (cases "t_date t"; cases now) (auto simp: inMonth_def)

lemma thisMonthTransactions_sameCalendarMonth:
  "thisMonthTransactions now txs = filter (\<lambda>t. sameCalendarMonth (t_date t) now) txs"
  unfolding thisMonthTransactions_def
  by (rule filter_cong) (simp_all add: inMonth_sameCalendarMonth)

text \<open>
  Claim C2.  \<open>getDashboardStats\<close> returns \<open>totalCustomers\<close> equal to the number of
  customers, \<open>thisMonthRevenue\<close> equal to the sum of \<open>totalAmount\<close> over exactly the
  transactions whose date falls in the calendar month and year of the clock, and
  \<open>pendingCollections\<close> equal to the sum of \<open>totalAmount - amountPaid\<close> over all
  transactions, whatever their date.
\<close>

theorem getDashboardStats_totals:
  "totalCustomers (getDashboardStats now custs txs) = length custs \<and>
   thisMonthRevenue (getDashboardStats now custs txs)
     = sum_list (map totalAmount (filter (\<lambda>t. sameCalendarMonth (t_date t) now) txs)) \<and>
   pendingCollections (getDashboardStats now custs txs)
     = sum_list (map (\<lambda>t. totalAmount t - amountPaid t) txs)"
  by (simp add: getDashboardStats_def Let_def thisMonthTransactions_sameCalendarMonth
        foldl_add_sum_list)

text \<open>
  On the example ledger in November 2026: one customer, 500 of revenue this month (only
  \<open>T2\<close>), 300 pending over both transactions.
\<close>

theorem getDashboardStats_totals_witness:
  "thisMonthRevenue (getDashboardStats nov3 (customers ledger) (transactions ledger)) = 500 \<and>
   pendingCollections (getDashboardStats nov3 (customers ledger) (transactions ledger)) = 300 \<and>
   totalCustomers (getDashboardStats nov3 (customers ledger) (transactions ledger)) = 1"
  using getDashboardStats_totals [of nov3 "customers ledger" "transactions ledger"]
  by (simp add: ledger_def sale_def nov3_def nov1_def oct15_def)

lemma map_rank_assign:
  "map rank (map (\<lambda>ir. (snd ir)\<lparr>rank := fst ir + 1\<rparr>) (enumerate 0 xs)) = [1..<Suc (length xs)]"
proof -
  have "map rank (map (\<lambda>ir. (snd ir)\<lparr>rank := fst ir + 1\<rparr>) (enumerate 0 xs))
          = map (\<lambda>ir. Suc (fst ir)) (enumerate 0 xs)"
    by (simp add: comp_def)
  also have "\<dots> = map Suc (map fst (enumerate 0 xs))"
    by (simp only: map_map o_def)
  also have "\<dots> = [1..<Suc (length xs)]"
    by (simp only: map_fst_enumerate map_Suc_upt add_0 One_nat_def)
  finally show ?thesis .
qed

lemma map_amount_assign:
  "map r_totalAmount (map (\<lambda>ir. (snd ir)\<lparr>rank := fst ir + 1\<rparr>) (enumerate n xs))
     = map r_totalAmount xs"
  by (induction xs arbitrary: n) simp_all

lemma descending_sort_key:
  "sorted_wrt (\<lambda>a b. a \<ge> b) (map r_totalAmount (sort_key (\<lambda>r. - r_totalAmount r) xs))"
proof -
  have "sorted (map (\<lambda>r. - r_totalAmount r) (sort_key (\<lambda>r. - r_totalAmount r) xs))"
    by (rule sorted_sort_key)
  then show ?thesis by (simp add: sorted_map sorted_wrt_map)
qed

text \<open>
  Claim C3 as stated fails: two customers with the same monthly total give a non-empty
  result that is not strictly descending.
\<close>

theorem getMonthlyRankings_ties_counterexample:
  "map r_totalAmount (getMonthlyRankings nov3 two_customers tied_sales None None) = [100, 100] \<and>
   \<not> sorted_wrt (\<lambda>a b. a > b)
       (map r_totalAmount (getMonthlyRankings nov3 two_customers tied_sales None None))"
proof -
  have "map r_totalAmount (getMonthlyRankings nov3 two_customers tied_sales None None) = [100, 100]"
    by (simp add: getMonthlyRankings_def Let_def two_customers_def tied_sales_def inMonth_def
          customerStats_def pushRankings_def customer_named_def sale_def nov1_def nov2_def nov3_def)
  then show ?thesis by simp
qed

text \<open>
  Claim C3, amended.  The result of \<open>getMonthlyRankings\<close> is sorted descending by
  \<open>totalAmount\<close>, entries with equal amounts being allowed next to each other, and the
  \<open>rank\<close> fields read in order are exactly 1, 2, ..., n.
\<close>

theorem getMonthlyRankings_descending_ranked:
  "sorted_wrt (\<lambda>a b. a \<ge> b) (map r_totalAmount (getMonthlyRankings now custs txs month year)) \<and>
   map rank (getMonthlyRankings now custs txs month year)
     = [1..<Suc (length (getMonthlyRankings now custs txs month year))]"
proof -
  let ?s = "sort_key (\<lambda>r. - r_totalAmount r)
              (pushRankings custs (customerStats (filter (inMonth
                 (case month of None \<Rightarrow> getMonth now | Some m \<Rightarrow> Some m)
                 (case year of None \<Rightarrow> getFullYear now | Some y \<Rightarrow> Some y)) txs)))"
  have r: "getMonthlyRankings now custs txs month year
             = map (\<lambda>ir. (snd ir)\<lparr>rank := fst ir + 1\<rparr>) (enumerate 0 ?s)"
    by (simp add: getMonthlyRankings_def Let_def)
  have len: "length (getMonthlyRankings now custs txs month year) = length ?s"
    unfolding r by simp
  show ?thesis
    unfolding len unfolding r map_amount_assign map_rank_assign
    using descending_sort_key by simp
qed

text \<open>The two tied customers get the ranks 1 and 2 in the order of accumulation.\<close>

theorem getMonthlyRankings_descending_ranked_witness:
  "map rank (getMonthlyRankings nov3 two_customers tied_sales None None) = [1, 2] \<and>
   map (\<lambda>r. c_id (r_customer r)) (getMonthlyRankings nov3 two_customers tied_sales None None)
     = [''c1'', ''c2'']"
proof -
  have ev: "map (\<lambda>r. c_id (r_customer r)) (getMonthlyRankings nov3 two_customers tied_sales None None)
     = [''c1'', ''c2'']"
    by (simp add: getMonthlyRankings_def Let_def two_customers_def tied_sales_def inMonth_def
          customerStats_def pushRankings_def customer_named_def sale_def nov1_def nov2_def nov3_def)
  then have "length (getMonthlyRankings nov3 two_customers tied_sales None None) = 2"
    by (metis length_map length_Cons list.size(3) numeral_2_eq_2)
  with getMonthlyRankings_descending_ranked [of nov3 two_customers tied_sales None None] ev show ?thesis
    by (simp add: upt_rec)
qed

subsection \<open>The revenue chart\<close>

lemma getRevenueChartData_lengths:
  "length (labels (getRevenueChartData now txs months startDate endDate)) = nat months \<and>
   length (data (getRevenueChartData now txs months startDate endDate)) = nat months"
  by (simp add: getRevenueChartData_def Let_def)

lemma getRevenueChartData_no_transactions:
  "getRevenueChartData nov3 [] 3 None None = \<lparr> labels = [''Sep'', ''Oct'', ''Nov''], data = [0, 0, 0] \<rparr>"
  by (simp add: getRevenueChartData_def chartBucket_def monthShort_def nov3_def Let_def
        upto_rec1)

text \<open>
  With both bounds given a bucket is the sum over the transactions of its month that lie
  within the range; with a bound missing the range is not applied at all.
\<close>

lemma getRevenueChartData_data:
  "data (getRevenueChartData now txs months startDate endDate)
     = map (\<lambda>i. snd (chartBucket now txs startDate endDate i)) (rev [0..months - 1])"
  by (simp add: getRevenueChartData_def Let_def)

lemma chartBucket_both_bounds:
  "snd (chartBucket now txs (Some startDate) (Some endDate) i)
     = sum_list (map totalAmount
         (filter (\<lambda>t. js_ge (getTime (t_date t)) (getTime startDate) \<and>
                       js_le (getTime (t_date t)) (getTime endDate) \<and>
                       strict_eq (getMonth (t_date t))
                         (snd (firstOfMonth (getFullYear now) (map_option (\<lambda>m. m - i) (getMonth now)))) \<and>
                       strict_eq (getFullYear (t_date t))
                         (fst (firstOfMonth (getFullYear now) (map_option (\<lambda>m. m - i) (getMonth now)))))
            txs))"
  by (simp add: chartBucket_def Let_def foldl_add_sum_list conj_assoc)

lemma chartBucket_one_bound:
  "startDate = None \<or> endDate = None \<Longrightarrow>
   snd (chartBucket now txs startDate endDate i) = snd (chartBucket now txs None None i)"
  by (cases startDate; cases endDate) (simp_all add: chartBucket_def Let_def)

text \<open>
  Claim C4 fails on the code when only one bound is supplied.  With only \<open>startDate\<close>
  = 2 November given, the sale of 1 November (before the bound) is still counted in the
  November bucket, while \<open>getPaymentStatusData\<close> with the same arguments leaves it out.
\<close>

theorem getRevenueChartData_one_sided_range:
  "getRevenueChartData nov3 [sale ''T1'' ''c1'' nov1 100 0 Pending] 1 (Some nov2) None
     = \<lparr> labels = [''Nov''], data = [100] \<rparr> \<and>
   js_lt (getTime (t_date (sale ''T1'' ''c1'' nov1 100 0 Pending))) (getTime nov2) \<and>
   getPaymentStatusData [sale ''T1'' ''c1'' nov1 100 0 Pending] (Some nov2) None
     = \<lparr> collected = 0, pending = 0 \<rparr>"
  by (simp add: getRevenueChartData_def chartBucket_def monthShort_def getPaymentStatusData_def
        dateFilter_def sale_def nov1_def nov2_def nov3_def Let_def)

subsection \<open>The top customer of the month\<close>

lemma map_of_tabulate:
  "map_of (map (\<lambda>k. (k, f k)) ks) c = (if c \<in> set ks then Some (f c) else None)"
  by (induction ks) auto

lemma map_set_new:
  "k \<notin> fst ` set m \<Longrightarrow> map_set m k v = m @ [(k, v)]"
  by (induction m) auto

lemma map_set_tabulate:
  "distinct ks \<Longrightarrow> c \<in> set ks \<Longrightarrow>
   map_set (map (\<lambda>k. (k, f k)) ks) c v = map (\<lambda>k. (k, if k = c then v else f k)) ks"
  by (induction ks) auto

lemma firsts_snoc:
  "firsts (xs @ [x]) = (if x \<in> set xs then firsts xs else firsts xs @ [x])"
  by (simp add: firsts_def)

lemma set_firsts: "set (firsts xs) = set xs"
  by (simp add: firsts_def)

lemma distinct_firsts: "distinct (firsts xs)"
  by (simp add: firsts_def)

lemma customerSum_snoc:
  "customerSum (txs @ [t]) k
     = customerSum txs k + (if t_customerId t = k then totalAmount t else 0)"
  by (simp add: customerSum_def)

lemma customerSum_absent:
  "k \<notin> t_customerId ` set txs \<Longrightarrow> customerSum txs k = 0"
proof -
  assume "k \<notin> t_customerId ` set txs"
  then have "filter (\<lambda>t. t_customerId t = k) txs = []"
    by (auto simp: filter_empty_conv)
  then show ?thesis by (simp add: customerSum_def)
qed

lemma customerTotals_snoc:
  "customerTotals (txs @ [t]) =
     map_set (customerTotals txs) (t_customerId t)
       ((case map_of (customerTotals txs) (t_customerId t) of None \<Rightarrow> 0 | Some current \<Rightarrow> current)
        + totalAmount t)"
  by (simp add: customerTotals_def)

lemma customerTotals_tabulate:
  "customerTotals txs = map (\<lambda>k. (k, customerSum txs k)) (firsts (map t_customerId txs))"
proof (induction txs rule: rev_induct)
  case Nil
  then show ?case by (simp add: customerTotals_def firsts_def)
next
  case (snoc t txs)
  let ?c = "t_customerId t"
  let ?ks = "firsts (map t_customerId txs)"
  show ?case
  proof (cases "?c \<in> t_customerId ` set txs")
    case True
    then have mem: "?c \<in> set ?ks" by (simp add: set_firsts)
    have ks: "firsts (map t_customerId (txs @ [t])) = ?ks"
      using True by (simp add: firsts_snoc)
    have "customerTotals (txs @ [t])
            = map_set (map (\<lambda>k. (k, customerSum txs k)) ?ks) ?c (customerSum txs ?c + totalAmount t)"
      using mem by (simp add: customerTotals_snoc snoc.IH map_of_tabulate)
    also have "\<dots> = map (\<lambda>k. (k, if k = ?c then customerSum txs ?c + totalAmount t
                                    else customerSum txs k)) ?ks"
      using mem by (simp add: map_set_tabulate distinct_firsts)
    also have "\<dots> = map (\<lambda>k. (k, customerSum (txs @ [t]) k)) ?ks"
      by (rule map_cong) (auto simp: customerSum_snoc)
    finally show ?thesis by (simp only: ks)
  next
    case False
    then have nmem: "?c \<notin> set ?ks" by (simp add: set_firsts)
    have ks: "firsts (map t_customerId (txs @ [t])) = ?ks @ [?c]"
      using False by (simp add: firsts_snoc)
    have fresh: "?c \<notin> fst ` set (map (\<lambda>k. (k, customerSum txs k)) ?ks)"
      using nmem by (auto simp: image_iff)
    have "customerTotals (txs @ [t])
            = map_set (map (\<lambda>k. (k, customerSum txs k)) ?ks) ?c (0 + totalAmount t)"
      using nmem by (simp add: customerTotals_snoc snoc.IH map_of_tabulate)
    also have "\<dots> = map (\<lambda>k. (k, customerSum txs k)) ?ks @ [(?c, 0 + totalAmount t)]"
      using fresh by (rule map_set_new)
    also have "map (\<lambda>k. (k, customerSum txs k)) ?ks
                 = map (\<lambda>k. (k, customerSum (txs @ [t]) k)) ?ks"
      using nmem by (intro map_cong) (auto simp: customerSum_snoc)
    also have "(?c, 0 + totalAmount t) = (?c, customerSum (txs @ [t]) ?c)"
      using False by (simp add: customerSum_snoc customerSum_absent)
    finally show ?thesis using ks by simp
  qed
qed

lemma find_snoc:
  "List.find P (xs @ [x]) = (case List.find P xs of None \<Rightarrow> (if P x then Some x else None) | Some y \<Rightarrow> Some y)"
  by (induction xs) auto

lemma find_firsts: "List.find P (firsts xs) = List.find P xs"
proof (induction xs rule: rev_induct)
  case Nil
  then show ?case by (simp add: firsts_def)
next
  case (snoc x xs)
  show ?case
  proof (cases "x \<in> set xs")
    case True
    show ?thesis
    proof (cases "List.find P xs")
      case None
      then have "\<not> P x" using True by (auto simp: find_None_iff)
      with None True snoc.IH show ?thesis by (simp add: firsts_snoc find_snoc)
    next
      case (Some y)
      with True snoc.IH show ?thesis by (simp add: firsts_snoc find_snoc)
    qed
  next
    case False
    with snoc.IH show ?thesis by (simp add: firsts_snoc find_snoc)
  qed
qed

lemma find_tabulate:
  "List.find (\<lambda>e. snd e = v) (map (\<lambda>k. (k, f k)) ks)
     = map_option (\<lambda>k. (k, f k)) (List.find (\<lambda>k. f k = v) ks)"
  by (induction ks) auto

lemma top_fold:
  fixes a0 :: real
  shows "a0 \<le> snd (foldl (\<lambda>top e. if snd e > snd top then e else top) (i0, a0) es) \<and>
     (\<forall>e \<in> set es. snd e \<le> snd (foldl (\<lambda>top e. if snd e > snd top then e else top) (i0, a0) es)) \<and>
     (if \<exists>e \<in> set es. a0 < snd e
      then List.find (\<lambda>e. snd e = snd (foldl (\<lambda>top e. if snd e > snd top then e else top) (i0, a0) es)) es
             = Some (foldl (\<lambda>top e. if snd e > snd top then e else top) (i0, a0) es)
      else foldl (\<lambda>top e. if snd e > snd top then e else top) (i0, a0) es = (i0, a0))"
proof (induction es arbitrary: i0 a0)
  case Nil
  then show ?case by simp
next
  case (Cons e es)
  let ?step = "\<lambda>top e. if snd e > snd top then e else top"
  show ?case
  proof (cases "snd e > a0")
    case True
    let ?r = "foldl ?step (fst e, snd e) es"
    have r: "foldl ?step (i0, a0) (e # es) = ?r" using True by simp
    note ih = Cons.IH [of "snd e" "fst e"]
    show ?thesis
    proof (cases "\<exists>e' \<in> set es. snd e < snd e'")
      case True
      with ih have f: "List.find (\<lambda>x. snd x = snd ?r) es = Some ?r" by simp
      from True ih have "snd e < snd ?r" by force
      with f ih \<open>snd e > a0\<close> show ?thesis unfolding r by auto
    next
      case False
      with ih have "?r = e" by simp
      with ih \<open>snd e > a0\<close> show ?thesis unfolding r by auto
    qed
  next
    case False
    let ?r = "foldl ?step (i0, a0) es"
    have r: "foldl ?step (i0, a0) (e # es) = ?r" using False by simp
    note ih = Cons.IH [of a0 i0]
    show ?thesis
    proof (cases "\<exists>e' \<in> set es. a0 < snd e'")
      case True
      with ih have f: "List.find (\<lambda>x. snd x = snd ?r) es = Some ?r" by simp
      from True ih have "a0 < snd ?r" by force
      with f ih False True show ?thesis unfolding r by auto
    next
      case False
      with ih have "?r = (i0, a0)" by simp
      with ih False \<open>\<not> snd e > a0\<close> show ?thesis unfolding r by auto
    qed
  qed
qed

text \<open>
  Claim C5, amended.  Among the transactions of the current calendar month,
  \<open>topCustomer.amount\<close> is never negative and bounds every customer's summed
  \<open>totalAmount\<close>.  When some customer's sum is positive, the amount is attained by a
  sum, and \<open>topCustomer.customer\<close> is the entry of \<open>customers\<close> found under the first
  \<open>customerId\<close>, in transaction order, whose sum equals the amount (\<open>null\<close> when no
  customer has that id).  When no sum is positive, in particular when there is no
  transaction in the month, the amount is 0 and the customer is the one found under the
  empty id, that is \<open>null\<close> unless a customer has the empty id.
\<close>

theorem topCustomer_first_highest:
  "let mt = filter (\<lambda>t. sameCalendarMonth (t_date t) now) txs;
       top = topCustomer (getDashboardStats now custs txs)
   in (\<forall>t \<in> set mt. customerSum mt (t_customerId t) \<le> tc_amount top) \<and>
      0 \<le> tc_amount top \<and>
      ((\<exists>t \<in> set mt. 0 < customerSum mt (t_customerId t)) \<longrightarrow>
         (\<exists>k. List.find (\<lambda>c. customerSum mt c = tc_amount top) (map t_customerId mt) = Some k \<and>
              tc_customer top = List.find (\<lambda>c. c_id c = k) custs)) \<and>
      ((\<forall>t \<in> set mt. customerSum mt (t_customerId t) \<le> 0) \<longrightarrow>
         tc_amount top = 0 \<and> tc_customer top = List.find (\<lambda>c. c_id c = []) custs)"
proof -
  define mt where "mt = filter (\<lambda>t. sameCalendarMonth (t_date t) now) txs"
  define ks where "ks = firsts (map t_customerId mt)"
  define es where "es = map (\<lambda>k. (k, customerSum mt k)) ks"
  define r where "r = topEntry es"
  have top: "topCustomer (getDashboardStats now custs txs)
               = \<lparr> tc_customer = List.find (\<lambda>c. c_id c = fst r) custs, tc_amount = snd r \<rparr>"
    by (simp add: getDashboardStats_def Let_def customerTotals_tabulate
          thisMonthTransactions_sameCalendarMonth r_def es_def ks_def mt_def)
  have r_fold: "r = foldl (\<lambda>top e. if snd e > snd top then e else top) ([], 0) es"
    by (simp add: r_def topEntry_def)
  note tf = top_fold [of 0 "[]" es, folded r_fold]
  have entry: "(t_customerId t, customerSum mt (t_customerId t)) \<in> set es" if "t \<in> set mt" for t
    using that by (auto simp: es_def ks_def set_firsts)
  have bound: "\<forall>t \<in> set mt. customerSum mt (t_customerId t) \<le> snd r"
  proof
    fix t assume "t \<in> set mt"
    from entry [OF this] tf show "customerSum mt (t_customerId t) \<le> snd r" by force
  qed
  have nonneg: "0 \<le> snd r" using tf by simp
  have some: "\<exists>k. List.find (\<lambda>c. customerSum mt c = snd r) (map t_customerId mt) = Some k \<and>
                  fst r = k"
    if "\<exists>t \<in> set mt. 0 < customerSum mt (t_customerId t)"
  proof -
    from that obtain t where "t \<in> set mt" "0 < customerSum mt (t_customerId t)" by blast
    with entry have "\<exists>e \<in> set es. 0 < snd e" by force
    with tf have "List.find (\<lambda>e. snd e = snd r) es = Some r" by simp
    then have "map_option (\<lambda>k. (k, customerSum mt k))
                 (List.find (\<lambda>k. customerSum mt k = snd r) ks) = Some r"
      by (simp add: es_def find_tabulate)
    then obtain k where k: "List.find (\<lambda>k. customerSum mt k = snd r) ks = Some k"
        and rk: "r = (k, customerSum mt k)"
      by auto
    from k have "List.find (\<lambda>c. customerSum mt c = snd r) (map t_customerId mt) = Some k"
      by (simp add: ks_def find_firsts)
    with rk show ?thesis by simp
  qed
  have none: "r = ([], 0)" if "\<forall>t \<in> set mt. customerSum mt (t_customerId t) \<le> 0"
  proof -
    have "\<not> (\<exists>e \<in> set es. 0 < snd e)"
      using that by (auto simp: es_def ks_def set_firsts)
    with tf show ?thesis by simp
  qed
  show ?thesis
    unfolding Let_def mt_def [symmetric] top
    using bound nonneg some none by auto
qed

text \<open>Two customers tied at 100: the first encountered, \<open>c1\<close>, is the top customer.\<close>

theorem topCustomer_first_highest_witness:
  "(\<exists>t \<in> set tied_sales. 0 < customerSum tied_sales (t_customerId t)) \<and>
   List.find (\<lambda>c. customerSum tied_sales c = 100) (map t_customerId tied_sales) = Some ''c1'' \<and>
   topCustomer (getDashboardStats nov3 two_customers tied_sales)
     = \<lparr> tc_customer = Some (customer_named ''c1'' ''Asha''), tc_amount = 100 \<rparr>"
proof -
  have mt: "filter (\<lambda>t. sameCalendarMonth (t_date t) nov3) tied_sales = tied_sales"
    by (simp add: tied_sales_def sale_def nov1_def nov2_def nov3_def)
  have h: "\<exists>t \<in> set tied_sales. 0 < customerSum tied_sales (t_customerId t)"
    by (simp add: tied_sales_def sale_def customerSum_def)
  have f: "List.find (\<lambda>c. customerSum tied_sales c = 100) (map t_customerId tied_sales) = Some ''c1''"
    by (simp add: tied_sales_def sale_def customerSum_def)
  have ev: "topCustomer (getDashboardStats nov3 two_customers tied_sales)
     = \<lparr> tc_customer = Some (customer_named ''c1'' ''Asha''), tc_amount = 100 \<rparr>"
    by (simp add: getDashboardStats_def Let_def thisMonthTransactions_def inMonth_def
          customerTotals_def topEntry_def two_customers_def tied_sales_def sale_def
          customer_named_def nov1_def nov2_def nov3_def)
  show ?thesis
    using topCustomer_first_highest [of nov3 tied_sales two_customers] mt h f ev by simp
qed

text \<open>
  Claim C5 as stated fails: the month has a transaction (of total 0), yet the result is
  \<open>{ customer: null, amount: 0 }\<close>.
\<close>

theorem topCustomer_zero_total_counterexample:
  "thisMonthTransactions nov3 free_sample \<noteq> [] \<and>
   topCustomer (getDashboardStats nov3 (customers ledger) free_sample)
     = \<lparr> tc_customer = None, tc_amount = 0 \<rparr>"
  by (simp add: getDashboardStats_def Let_def thisMonthTransactions_def inMonth_def
        customerTotals_def topEntry_def free_sample_def ledger_def sale_def
        customer_named_def nov1_def nov3_def)

end
